theory Spec2Isabelle
  imports Main
begin

section \<open>The version headers\<close>

text \<open>
  The repository ships two copies of \<^verbatim>\<open>VanBusVersion.h\<close>: \<^verbatim>\<open>src/VanBusVersion.h\<close>
  (release 0.3.2) and \<^verbatim>\<open>src/src/VanBusVersion.h\<close> (release 0.4.0). Each is a list of
  object-like macro definitions, every one with a single replacement token. A header is
  modelled as the list of its \<^verbatim>\<open>#define\<close> lines in source order.
\<close>

datatype pp_token =
  StringLit string    \<comment> \<open>a string literal, held without its quotes\<close>
| PPNumber string     \<comment> \<open>a preprocessing number, held as spelled\<close>
| Ident string        \<comment> \<open>an identifier\<close>

type_synonym header = "(string \<times> pp_token) list"

definition VanBusVersion_h :: header where
  \<comment> \<open>\<^verbatim>\<open>src/VanBusVersion.h\<close>, lines 14 to 22\<close>
  "VanBusVersion_h =
    [(''VAN_BUS_VERSION'', StringLit ''0.3.2''),
     (''VAN_BUS_VERSION_MAJOR'', PPNumber ''0''),
     (''VAN_BUS_VERSION_MINOR'', PPNumber ''3''),
     (''VAN_BUS_VERSION_PATCH'', PPNumber ''2''),
     (''VAN_BUS_VERSION_INT'', PPNumber ''000003002''),
     (''VAN_BUS_RX_VERSION'', Ident ''VAN_BUS_VERSION_INT'')]"

definition src_VanBusVersion_h :: header where
  \<comment> \<open>\<^verbatim>\<open>src/src/VanBusVersion.h\<close>, lines 14 to 22\<close>
  "src_VanBusVersion_h =
    [(''VAN_BUS_VERSION'', StringLit ''0.4.0''),
     (''VAN_BUS_VERSION_MAJOR'', PPNumber ''0''),
     (''VAN_BUS_VERSION_MINOR'', PPNumber ''4''),
     (''VAN_BUS_VERSION_PATCH'', PPNumber ''0''),
     (''VAN_BUS_VERSION_INT'', PPNumber ''000004000''),
     (''VAN_BUS_RX_VERSION'', Ident ''VAN_BUS_VERSION_INT'')]"

subsection \<open>Macro replacement\<close>

text \<open>
  Replacing an identifier: when it names a macro, its replacement token is rescanned with
  that macro no longer available (a macro is never replaced inside its own expansion);
  any other token stands for itself.
\<close>

definition undef :: "string \<Rightarrow> header \<Rightarrow> header" where
  "undef name h = filter (\<lambda>d. fst d \<noteq> name) h"

lemma undef_shorter: "map_of h name = Some t \<Longrightarrow> length (undef name h) < length h"
proof (induction h)
  case Nil
  then show ?case by simp
next
  case (Cons d h)
  show ?case
  proof (cases "fst d = name")
    case True
    have "length (filter (\<lambda>d. fst d \<noteq> name) h) \<le> length h"
      by (rule length_filter_le)
    then have "length (filter (\<lambda>d. fst d \<noteq> name) h) < Suc (length h)"
      by (rule le_imp_less_Suc)
    with True show ?thesis by (simp add: undef_def)
  next
    case False
    with Cons.prems have "map_of h name = Some t"
      by (cases d) (simp split: if_splits)
    with Cons.IH False show ?thesis by (simp add: undef_def)
  qed
qed

function expand :: "header \<Rightarrow> pp_token \<Rightarrow> pp_token" where
  "expand h (StringLit s) = StringLit s"
| "expand h (PPNumber s) = PPNumber s"
| "expand h (Ident name) =
     (case map_of h name of
        None \<Rightarrow> Ident name
      | Some t \<Rightarrow> expand (undef name h) t)"
  by pat_completeness auto
termination
  by (relation "measure (\<lambda>(h, t). length h)") (auto simp: undef_shorter)

subsection \<open>Integer literals\<close>

text \<open>
  The value of an integer literal by the rules of C and C++: a literal that starts with
  \<^verbatim>\<open>0x\<close> or \<^verbatim>\<open>0X\<close> is hexadecimal, any other literal that starts with \<^verbatim>\<open>0\<close> is
  octal, and a literal that starts with a nonzero digit is decimal. An optional
  unsigned/long suffix does not change the value. \<open>None\<close> is a literal the compiler
  rejects.
\<close>

definition digit_val :: "char \<Rightarrow> nat option" where
  "digit_val c =
     (let n = (of_char c :: nat) in
      if 48 \<le> n \<and> n \<le> 57 then Some (n - 48)
      else if 97 \<le> n \<and> n \<le> 102 then Some (n - 87)
      else if 65 \<le> n \<and> n \<le> 70 then Some (n - 55)
      else None)"

fun parse_digits :: "nat \<Rightarrow> string \<Rightarrow> nat \<Rightarrow> nat option" where
  "parse_digits b [] acc = Some acc"
| "parse_digits b (c # cs) acc =
     (case digit_val c of
        None \<Rightarrow> None
      | Some d \<Rightarrow> if d < b then parse_digits b cs (acc * b + d) else None)"

definition integer_suffixes :: "string list" where
  "integer_suffixes =
    ['''', ''u'', ''U'', ''l'', ''L'', ''ll'', ''LL'',
     ''ul'', ''uL'', ''Ul'', ''UL'', ''ull'', ''uLL'', ''Ull'', ''ULL'',
     ''lu'', ''lU'', ''Lu'', ''LU'', ''llu'', ''llU'', ''LLu'', ''LLU'']"

definition is_suffix_char :: "char \<Rightarrow> bool" where
  "is_suffix_char c = (c \<in> set ''uUlL'')"

definition integer_literal :: "string \<Rightarrow> nat option" where
  "integer_literal s =
     (let body = takeWhile (\<lambda>c. \<not> is_suffix_char c) s;
          suffix = dropWhile (\<lambda>c. \<not> is_suffix_char c) s
      in if suffix \<notin> set integer_suffixes then None
         else if take 2 body = ''0x'' \<or> take 2 body = ''0X'' then
           (if drop 2 body = [] then None else parse_digits 16 (drop 2 body) 0)
         else if take 1 body = ''0'' then parse_digits 8 (drop 1 body) 0
         else if body = [] then None
         else parse_digits 10 body 0)"

text \<open>The value a macro has where it is used as an integer constant.\<close>

definition macro_int :: "header \<Rightarrow> string \<Rightarrow> nat option" where
  "macro_int h name =
     (case expand h (Ident name) of
        PPNumber s \<Rightarrow> integer_literal s
      | _ \<Rightarrow> None)"

text \<open>The characters a macro has where it is used as a string.\<close>

definition macro_string :: "header \<Rightarrow> string \<Rightarrow> string option" where
  "macro_string h name =
     (case expand h (Ident name) of
        StringLit s \<Rightarrow> Some s
      | _ \<Rightarrow> None)"

subsection \<open>Decimal digits of a number\<close>

definition digit_char :: "nat \<Rightarrow> char" where
  "digit_char d = ''0123456789'' ! (d mod 10)"

function decimal :: "nat \<Rightarrow> string" where
  "decimal n = (if n < 10 then [digit_char n] else decimal (n div 10) @ [digit_char (n mod 10)])"
  by pat_completeness auto
termination
  by (relation "measure id") auto

declare decimal.simps [simp del]

text \<open>The dotted version string made of the three numeric macros of a header.\<close>

definition dotted_version :: "header \<Rightarrow> string option" where
  "dotted_version h =
     (case (macro_int h ''VAN_BUS_VERSION_MAJOR'',
            macro_int h ''VAN_BUS_VERSION_MINOR'',
            macro_int h ''VAN_BUS_VERSION_PATCH'') of
        (Some major, Some minor, Some patch) \<Rightarrow>
          Some (decimal major @ ''.'' @ decimal minor @ ''.'' @ decimal patch)
      | _ \<Rightarrow> None)"

text \<open>The number the three numeric macros stand for when packed three digits apiece.\<close>

definition packed_version :: "header \<Rightarrow> nat option" where
  "packed_version h =
     (case (macro_int h ''VAN_BUS_VERSION_MAJOR'',
            macro_int h ''VAN_BUS_VERSION_MINOR'',
            macro_int h ''VAN_BUS_VERSION_PATCH'') of
        (Some major, Some minor, Some patch) \<Rightarrow>
          Some (major * 1000000 + minor * 1000 + patch)
      | _ \<Rightarrow> None)"

text \<open>Whether the receiver version of the first header is below that of the second.\<close>

definition rx_version_less :: "header \<Rightarrow> header \<Rightarrow> bool" where
  "rx_version_less h1 h2 =
     (case (macro_int h1 ''VAN_BUS_RX_VERSION'', macro_int h2 ''VAN_BUS_RX_VERSION'') of
        (Some a, Some b) \<Rightarrow> a < b
      | _ \<Rightarrow> False)"

section \<open>Properties of the version headers\<close>

text \<open>The equations that evaluate a header.\<close>

lemmas header_eval =
  VanBusVersion_h_def src_VanBusVersion_h_def macro_int_def macro_string_def
  undef_def integer_literal_def is_suffix_char_def integer_suffixes_def digit_val_def
  dotted_version_def packed_version_def rx_version_less_def digit_char_def decimal.simps

text \<open>
  Claim C8. In each header the string \<^verbatim>\<open>VAN_BUS_VERSION\<close> is the decimal digits of
  \<^verbatim>\<open>VAN_BUS_VERSION_MAJOR\<close>, \<^verbatim>\<open>VAN_BUS_VERSION_MINOR\<close> and \<^verbatim>\<open>VAN_BUS_VERSION_PATCH\<close>
  joined by dots: \<^verbatim>\<open>"0.3.2"\<close> for (0, 3, 2) in \<^verbatim>\<open>src/VanBusVersion.h\<close> and
  \<^verbatim>\<open>"0.4.0"\<close> for (0, 4, 0) in \<^verbatim>\<open>src/src/VanBusVersion.h\<close>.
\<close>

theorem version_string_matches_components:
  "macro_string VanBusVersion_h ''VAN_BUS_VERSION'' = dotted_version VanBusVersion_h
   \<and> macro_string VanBusVersion_h ''VAN_BUS_VERSION'' = Some ''0.3.2''
   \<and> macro_int VanBusVersion_h ''VAN_BUS_VERSION_MAJOR'' = Some 0
   \<and> macro_int VanBusVersion_h ''VAN_BUS_VERSION_MINOR'' = Some 3
   \<and> macro_int VanBusVersion_h ''VAN_BUS_VERSION_PATCH'' = Some 2
   \<and> macro_string src_VanBusVersion_h ''VAN_BUS_VERSION'' = dotted_version src_VanBusVersion_h
   \<and> macro_string src_VanBusVersion_h ''VAN_BUS_VERSION'' = Some ''0.4.0''
   \<and> macro_int src_VanBusVersion_h ''VAN_BUS_VERSION_MAJOR'' = Some 0
   \<and> macro_int src_VanBusVersion_h ''VAN_BUS_VERSION_MINOR'' = Some 4
   \<and> macro_int src_VanBusVersion_h ''VAN_BUS_VERSION_PATCH'' = Some 0"
  by (simp add: header_eval)

text \<open>
  Claim C9. The claim is that \<^verbatim>\<open>VAN_BUS_VERSION_INT\<close> has the value
  major * 1000000 + minor * 1000 + patch, that is 3002 and 4000. The literals are written
  with leading zeros (\<^verbatim>\<open>000003002\<close>, \<^verbatim>\<open>000004000\<close>), which makes them octal: their
  values are 1538 and 2048, not the packed numbers 3002 and 4000.
\<close>

theorem version_int_is_read_as_octal:
  "macro_int VanBusVersion_h ''VAN_BUS_VERSION_INT'' = Some 1538
   \<and> packed_version VanBusVersion_h = Some 3002
   \<and> macro_int VanBusVersion_h ''VAN_BUS_VERSION_INT'' \<noteq> packed_version VanBusVersion_h
   \<and> macro_int src_VanBusVersion_h ''VAN_BUS_VERSION_INT'' = Some 2048
   \<and> packed_version src_VanBusVersion_h = Some 4000
   \<and> macro_int src_VanBusVersion_h ''VAN_BUS_VERSION_INT'' \<noteq> packed_version src_VanBusVersion_h"
  by (simp add: header_eval)

text \<open>
  Claim C10. \<^verbatim>\<open>VAN_BUS_RX_VERSION\<close> has the value of \<^verbatim>\<open>VAN_BUS_VERSION_INT\<close> in both
  headers, and its value in the later release (0.4.0) is strictly greater than in the
  earlier release (0.3.2).
\<close>

theorem rx_version_orders_releases:
  "expand VanBusVersion_h (Ident ''VAN_BUS_RX_VERSION'')
     = expand VanBusVersion_h (Ident ''VAN_BUS_VERSION_INT'')
   \<and> macro_int VanBusVersion_h ''VAN_BUS_RX_VERSION''
     = macro_int VanBusVersion_h ''VAN_BUS_VERSION_INT''
   \<and> expand src_VanBusVersion_h (Ident ''VAN_BUS_RX_VERSION'')
     = expand src_VanBusVersion_h (Ident ''VAN_BUS_VERSION_INT'')
   \<and> macro_int src_VanBusVersion_h ''VAN_BUS_RX_VERSION''
     = macro_int src_VanBusVersion_h ''VAN_BUS_VERSION_INT''
   \<and> rx_version_less VanBusVersion_h src_VanBusVersion_h"
  by (simp add: header_eval)

end
